theory Spec2Isabelle
  imports Complex_Main "HOL-Library.AList"
begin

section \<open>The reader of napari-metadata: \<^verbatim>\<open>_reader.py\<close>\<close>

text \<open>
  The module turns the nodes of an OME-Zarr dataset into napari layer data. Python
  exceptions are values of \<open>error\<close>; a function that may raise returns \<open>error + 'a\<close>
  with \<open>Inl\<close> the exception. A Python \<open>dict\<close> whose iteration order matters is an
  association list with the update of \<open>AList.update\<close> (an existing key keeps its place,
  a new key goes to the end), which is the insertion order of Python.
\<close>

datatype error = KeyError | IndexError | TypeError | ValueError

subsection \<open>\<^verbatim>\<open>transform_properties\<close>\<close>

text \<open>
  The lists of the result hold label identifiers, property values and \<open>None\<close>.
\<close>

datatype ('l, 'v) cell = LabelId 'l | Value 'v | PyNone

type_synonym ('l, 'v) props = "('l \<times> (string \<times> 'v) list) list"
type_synonym ('l, 'v) properties = "(string \<times> ('l, 'v) cell list) list"

text \<open>\<^verbatim>\<open>properties[key].append(x)\<close>: the key is present whenever the code does this.\<close>

definition dict_append :: "string \<Rightarrow> ('l, 'v) cell \<Rightarrow> ('l, 'v) properties \<Rightarrow> ('l, 'v) properties" where
  "dict_append key x properties = AList.map_entry key (\<lambda>xs. xs @ [x]) properties"

text \<open>\<^verbatim>\<open>props_dict.get(key, None)\<close>\<close>

definition dict_get_none :: "(string \<times> 'v) list \<Rightarrow> string \<Rightarrow> ('l, 'v) cell" where
  "dict_get_none props_dict key = (case map_of props_dict key of None \<Rightarrow> PyNone | Some v \<Rightarrow> Value v)"

text \<open>The first loop: \<^verbatim>\<open>properties[key] = []\<close> for every key of every label.\<close>

definition create_lists :: "('l, 'v) props \<Rightarrow> ('l, 'v) properties" where
  "create_lists props =
     fold (\<lambda>(label_id, props_dict) properties.
             fold (\<lambda>key properties. AList.update key [] properties) (map fst props_dict) properties)
          props []"

text \<open>The body of the second loop, for one label.\<close>

definition append_label :: "string list \<Rightarrow> 'l \<times> (string \<times> 'v) list \<Rightarrow> ('l, 'v) properties \<Rightarrow> ('l, 'v) properties" where
  "append_label keys entry properties =
     (case entry of (label_id, props_dict) \<Rightarrow>
        fold (\<lambda>key properties. dict_append key (dict_get_none props_dict key) properties) keys
          (dict_append ''index'' (LabelId label_id) properties))"

definition transform_properties :: "('l, 'v) props option \<Rightarrow> ('l, 'v) properties option" where
  "transform_properties props_opt =
     (case props_opt of
        None \<Rightarrow> None
      | Some props \<Rightarrow>
          (let properties = create_lists props;
               keys = map fst properties;
               properties = AList.update ''index'' [] properties
           in Some (fold (append_label keys) props properties)))"

subsection \<open>Values, axes and the extra metadata\<close>

text \<open>
  The values of the display fields. A \<open>dict\<close> is an object of the store and \<open>PRef\<close>
  is a reference to it: the reader writes to the mappings of the \<^verbatim>\<open>metadata\<close> field,
  and the node and the output may share them.
\<close>

datatype pyval =
    PNone
  | PBool bool
  | PNum int
  | PStr string
  | PList "pyval list"
  | PRef nat

text \<open>The immutable contents of a mapping read from the JSON sidecar.\<close>

datatype json = JNull | JBool bool | JNum int | JStr string | JArr "json list" | JObj "(string \<times> json) list"

text \<open>
  \<^verbatim>\<open>SpaceAxis\<close> and \<^verbatim>\<open>TimeAxis\<close> of \<^verbatim>\<open>_model.py\<close>, with the canonical units
  \<open>'su\<close> (\<^verbatim>\<open>SpaceUnits\<close>) and \<open>'tu\<close> (\<^verbatim>\<open>TimeUnits\<close>).
\<close>

datatype ('su, 'tu) Axis = SpaceAxis string 'su | TimeAxis string 'tu

record ('f, 'su, 'tu) OriginalMetadata =
  o_axes :: "('su, 'tu) Axis list"
  o_name :: pyval
  o_scale :: "'f list option"
  o_translate :: "'f list option"

record ('f, 'su, 'tu) ExtraMetadata =
  e_axes :: "('su, 'tu) Axis list"
  e_original :: "('f, 'su, 'tu) OriginalMetadata"

text \<open>
  The unit registries \<^verbatim>\<open>SpaceUnits\<close> and \<^verbatim>\<open>TimeUnits\<close>, the method
  \<^verbatim>\<open>get_unit_name\<close> of an axis and the constant \<^verbatim>\<open>EXTRA_METADATA_KEY\<close> are declared in
  modules the reader imports; they are parameters of the model.
\<close>

record ('su, 'tu) units =
  space_from_name :: "string \<Rightarrow> 'su"
  time_from_name :: "string \<Rightarrow> 'tu"
  space_NONE :: 'su
  get_unit_name :: "'su \<Rightarrow> string"
  EXTRA_METADATA_KEY :: string

subsection \<open>\<^verbatim>\<open>get_axis\<close> and \<^verbatim>\<open>get_axes\<close>\<close>

text \<open>An axis descriptor \<^verbatim>\<open>{name, unit?, type?}\<close>; \<open>None\<close> is an absent key.\<close>

record axis_desc =
  d_name :: "string option"
  d_unit :: "string option"
  d_type :: "string option"

definition get_axis :: "('su, 'tu) units \<Rightarrow> axis_desc \<Rightarrow> error + ('su, 'tu) Axis option" where
  "get_axis env axis =
     (case d_name axis of
        None \<Rightarrow> Inl KeyError
      | Some name \<Rightarrow>
          (let unit = (case d_unit axis of None \<Rightarrow> ''none'' | Some u \<Rightarrow> u);
               axis_type = d_type axis
           in if axis_type = Some ''time'' then Inr (Some (TimeAxis name (time_from_name env unit)))
              else if axis_type \<noteq> Some ''channel'' then Inr (Some (SpaceAxis name (space_from_name env unit)))
              else Inr None))"

text \<open>The loop of \<^verbatim>\<open>get_axes\<close>: the first descriptor that raises ends it.\<close>

fun collect_axes :: "('su, 'tu) units \<Rightarrow> axis_desc list \<Rightarrow> error + ('su, 'tu) Axis list" where
  "collect_axes env [] = Inr []"
| "collect_axes env (a # rest) =
     (case get_axis env a of
        Inl e \<Rightarrow> Inl e
      | Inr r \<Rightarrow>
          (case collect_axes env rest of
             Inl e \<Rightarrow> Inl e
           | Inr axes \<Rightarrow> Inr (case r of None \<Rightarrow> axes | Some axis \<Rightarrow> axis # axes)))"

text \<open>\<^verbatim>\<open>{axis.get_unit_name() for axis in space_axes}\<close>\<close>

fun space_unit_names :: "('su, 'tu) units \<Rightarrow> ('su, 'tu) Axis list \<Rightarrow> string list" where
  "space_unit_names env [] = []"
| "space_unit_names env (SpaceAxis n u # axes) = get_unit_name env u # space_unit_names env axes"
| "space_unit_names env (TimeAxis n u # axes) = space_unit_names env axes"

text \<open>\<^verbatim>\<open>axis.unit = SpaceUnits.NONE\<close> for the space axes; they are the objects of the list.\<close>

fun set_unit_none :: "('su, 'tu) units \<Rightarrow> ('su, 'tu) Axis \<Rightarrow> ('su, 'tu) Axis" where
  "set_unit_none env (SpaceAxis n u) = SpaceAxis n (space_NONE env)"
| "set_unit_none env (TimeAxis n u) = TimeAxis n u"

datatype level = DEBUG | ERROR

datatype event = Log level string | UserWarning "string set"

definition get_axes :: "('su, 'tu) units \<Rightarrow> axis_desc list option \<Rightarrow> error + (('su, 'tu) Axis list \<times> event list)" where
  "get_axes env axes_field =
     (case axes_field of
        None \<Rightarrow> Inl KeyError
      | Some descs \<Rightarrow>
          (case collect_axes env descs of
             Inl e \<Rightarrow> Inl e
           | Inr axes \<Rightarrow>
               (let space_units = set (space_unit_names env axes)
                in if card space_units > 1
                   then Inr (map (set_unit_none env) axes, [UserWarning space_units])
                   else Inr (axes, []))))"

subsection \<open>\<^verbatim>\<open>transform_scale\<close>\<close>

text \<open>
  One entry of a level of \<^verbatim>\<open>coordinateTransformations\<close>, and the part of the output
  \<^verbatim>\<open>metadata\<close> dictionary that \<^verbatim>\<open>transform_scale\<close> writes. The function pops the
  channel entry from the lists of the node's own metadata, so it returns the updated
  level with the updated output; an exception leaves both as they are at that point.
\<close>

record 'f transf =
  t_scale :: "'f list option"
  t_translation :: "'f list option"

text \<open>\<^verbatim>\<open>xs.pop(i)\<close> for an index \<open>i \<ge> 0\<close>: the list without its \<open>i\<close>-th entry.\<close>

definition pop :: "nat \<Rightarrow> 'a list \<Rightarrow> error + 'a list" where
  "pop i xs = (if i < length xs then Inr (take i xs @ drop (Suc i) xs) else Inl IndexError)"

definition pop_channel :: "nat option \<Rightarrow> 'a list \<Rightarrow> error + 'a list" where
  "pop_channel channel_axis xs = (case channel_axis of None \<Rightarrow> Inr xs | Some i \<Rightarrow> pop i xs)"

text \<open>
  The body of the loop for one entry; the pair of output values is
  (\<^verbatim>\<open>metadata["scale"]\<close>, \<^verbatim>\<open>metadata["translate"]\<close>).
\<close>

definition transf_step ::
  "nat option \<Rightarrow> 'f transf \<Rightarrow> 'f list option \<times> 'f list option
     \<Rightarrow> 'f transf \<times> ('f list option \<times> 'f list option) \<times> error option" where
  "transf_step channel_axis transf out =
     (case (case t_scale transf of
              None \<Rightarrow> Inr (transf, out)
            | Some scale \<Rightarrow>
                (case pop_channel channel_axis scale of
                   Inl e \<Rightarrow> Inl e
                 | Inr scale' \<Rightarrow> Inr (transf\<lparr>t_scale := Some scale'\<rparr>, (Some scale', snd out)))) of
        Inl e \<Rightarrow> (transf, out, Some e)
      | Inr (transf1, out1) \<Rightarrow>
          (case t_translation transf1 of
             None \<Rightarrow> (transf1, out1, None)
           | Some translate \<Rightarrow>
               (case pop_channel channel_axis translate of
                  Inl e \<Rightarrow> (transf1, out1, Some e)
                | Inr translate' \<Rightarrow>
                    (transf1\<lparr>t_translation := Some translate'\<rparr>, (fst out1, Some translate'), None))))"

fun transf_loop ::
  "nat option \<Rightarrow> 'f transf list \<Rightarrow> 'f list option \<times> 'f list option
     \<Rightarrow> 'f transf list \<times> ('f list option \<times> 'f list option) \<times> error option" where
  "transf_loop channel_axis [] out = ([], out, None)"
| "transf_loop channel_axis (transf # rest) out =
     (case transf_step channel_axis transf out of
        (transf', out', Some e) \<Rightarrow> (transf' # rest, out', Some e)
      | (transf', out', None) \<Rightarrow>
          (case transf_loop channel_axis rest out' of
             (rest', out'', r) \<Rightarrow> (transf' # rest', out'', r)))"

definition transform_scale ::
  "'f transf list list option \<Rightarrow> 'f list option \<times> 'f list option \<Rightarrow> nat option
     \<Rightarrow> 'f transf list list option \<times> ('f list option \<times> 'f list option) \<times> error option" where
  "transform_scale coordinateTransformations out channel_axis =
     (case coordinateTransformations of
        None \<Rightarrow> (None, out, None)
      | Some [] \<Rightarrow> (Some [], out, Some IndexError)
      | Some (level_0_transforms # levels) \<Rightarrow>
          (case transf_loop channel_axis level_0_transforms out of
             (level_0', out', r) \<Rightarrow> (Some (level_0' # levels), out', r)))"

subsection \<open>The store of mapping objects\<close>

text \<open>
  A mapping object is a \<open>dict\<close> with string keys: its entries are JSON contents, or
  the \<^verbatim>\<open>ExtraMetadata\<close> written under the reserved key. The store maps addresses to
  objects; addresses from \<open>next_addr\<close> on are free.
\<close>

datatype ('f, 'su, 'tu) entry = Json json | Extra "('f, 'su, 'tu) ExtraMetadata"

type_synonym ('f, 'su, 'tu) dict_obj = "(string \<times> ('f, 'su, 'tu) entry) list"

record ('f, 'su, 'tu) store =
  objs :: "nat \<Rightarrow> ('f, 'su, 'tu) dict_obj"
  next_addr :: nat

definition alloc :: "('f, 'su, 'tu) dict_obj \<Rightarrow> ('f, 'su, 'tu) store \<Rightarrow> nat \<times> ('f, 'su, 'tu) store" where
  "alloc d st = (next_addr st, st\<lparr>objs := (objs st)(next_addr st := d), next_addr := Suc (next_addr st)\<rparr>)"

text \<open>\<^verbatim>\<open>m[key] = v\<close>: only a mapping object supports it.\<close>

definition setitem :: "pyval \<Rightarrow> string \<Rightarrow> ('f, 'su, 'tu) entry \<Rightarrow> ('f, 'su, 'tu) store \<Rightarrow> error + ('f, 'su, 'tu) store" where
  "setitem m key v st =
     (case m of
        PRef a \<Rightarrow> Inr (st\<lparr>objs := (objs st)(a := AList.update key v (objs st a))\<rparr>)
      | _ \<Rightarrow> Inl TypeError)"

text \<open>
  \<^verbatim>\<open>deepcopy(meta)\<close> of a value that is not a list: a mapping object is copied to a
  fresh address (its contents are immutable), any other value is itself.
\<close>

definition deepcopy :: "pyval \<Rightarrow> ('f, 'su, 'tu) store \<Rightarrow> pyval \<times> ('f, 'su, 'tu) store" where
  "deepcopy v st =
     (case v of
        PRef a \<Rightarrow> (case alloc (objs st a) st of (b, st') \<Rightarrow> (PRef b, st'))
      | _ \<Rightarrow> (v, st))"

text \<open>\<^verbatim>\<open>x[0]\<close>; the keys of a mapping object are strings, so \<open>0\<close> is not among them.\<close>

definition first_item :: "pyval \<Rightarrow> error + pyval" where
  "first_item x =
     (case x of
        PList [] \<Rightarrow> Inl IndexError
      | PList (v # vs) \<Rightarrow> Inr v
      | PStr [] \<Rightarrow> Inl IndexError
      | PStr (c # cs) \<Rightarrow> Inr (PStr [c])
      | PRef a \<Rightarrow> Inl KeyError
      | _ \<Rightarrow> Inl TypeError)"

subsection \<open>Nodes and layer data\<close>

text \<open>
  The \<^verbatim>\<open>colormap\<close> field is a list of colormap specifications or
  \<^verbatim>\<open>Colormap\<close> objects and has a field of its own; the other display fields
  (\<^verbatim>\<open>name\<close>, \<^verbatim>\<open>visible\<close>, \<^verbatim>\<open>contrast_limits\<close>, \<^verbatim>\<open>color\<close>, \<^verbatim>\<open>metadata\<close>) are in
  \<open>md_fields\<close>. An array is its shape.
\<close>

datatype cmap = ColormapSpec pyval | Colormap pyval

datatype cmap_field = ColormapList "cmap list" | ColormapItem cmap

record 'f node_metadata =
  md_axes :: "axis_desc list option"
  md_coordinateTransformations :: "'f transf list list option"
  md_properties :: "(pyval, pyval) props option"
  md_colormap :: "cmap list option"
  md_fields :: "string \<rightharpoonup> pyval"

record 'f node =
  n_data :: "nat list list option"
  n_metadata :: "'f node_metadata"
  n_is_label :: bool

record 'f metadata =
  m_scale :: "'f list option"
  m_translate :: "'f list option"
  m_channel_axis :: "nat option"
  m_colormap :: "cmap_field option"
  m_fields :: "string \<rightharpoonup> pyval"
  m_properties :: "(pyval, pyval) properties option"

datatype data_out = Pyramid "nat list list" | Level "nat list"

type_synonym 'f layer_data = "data_out \<times> 'f metadata \<times> string"

definition METADATA_KEYS :: "string list" where
  "METADATA_KEYS = [''name'', ''visible'', ''contrast_limits'', ''colormap'', ''color'', ''metadata'']"

definition empty_metadata :: "'f metadata" where
  "empty_metadata =
     \<lparr>m_scale = None, m_translate = None, m_channel_axis = None, m_colormap = None,
      m_fields = Map.empty, m_properties = None\<rparr>"

subsection \<open>\<^verbatim>\<open>make_extras\<close>\<close>

definition make_extras ::
  "'f metadata \<Rightarrow> ('su, 'tu) Axis list \<Rightarrow> pyval \<Rightarrow> ('f, 'su, 'tu) ExtraMetadata" where
  "make_extras metadata axes name =
     (let scale = m_scale metadata;
          translate = m_translate metadata;
          original_meta = \<lparr>o_axes = axes, o_name = name, o_scale = scale, o_translate = translate\<rparr>
      in \<lparr>e_axes = axes, e_original = original_meta\<rparr>)"

subsection \<open>\<^verbatim>\<open>transform\<close>: the steps for one node\<close>

text \<open>\<^verbatim>\<open>[axis["type"] for axis in node.metadata["axes"]]\<close>\<close>

fun ch_types_of :: "axis_desc list \<Rightarrow> error + string list" where
  "ch_types_of [] = Inr []"
| "ch_types_of (axis # rest) =
     (case d_type axis of
        None \<Rightarrow> Inl KeyError
      | Some t \<Rightarrow> (case ch_types_of rest of Inl e \<Rightarrow> Inl e | Inr ts \<Rightarrow> Inr (t # ts)))"

text \<open>\<^verbatim>\<open>xs.index(x)\<close> for an \<open>x\<close> that is in the list.\<close>

definition index_of :: "'a \<Rightarrow> 'a list \<Rightarrow> nat" where
  "index_of x xs = length (takeWhile (\<lambda>y. y \<noteq> x) xs)"

text \<open>The body of the \<^verbatim>\<open>try\<close>: the channel axis, or the exception that is logged and raised again.\<close>

definition detect_channel_axis :: "axis_desc list option \<Rightarrow> error + nat option" where
  "detect_channel_axis axes_field =
     (case axes_field of
        None \<Rightarrow> Inl KeyError
      | Some descs \<Rightarrow>
          (case ch_types_of descs of
             Inl e \<Rightarrow> Inl e
           | Inr ch_types \<Rightarrow>
               if ''channel'' \<in> set ch_types then Inr (Some (index_of ''channel'' ch_types)) else Inr None))"

text \<open>\<^verbatim>\<open>node.metadata["name"] = [name]\<close> for a non-empty string name and no channel axis.\<close>

definition wrap_name :: "nat option \<Rightarrow> 'f node_metadata \<Rightarrow> 'f node_metadata" where
  "wrap_name channel_axis md =
     (case md_fields md ''name'' of
        Some (PStr name) \<Rightarrow>
          if name \<noteq> [] \<and> channel_axis = None
          then md\<lparr>md_fields := (md_fields md)(''name'' \<mapsto> PList [PStr name])\<rparr>
          else md
      | _ \<Rightarrow> md)"

text \<open>\<^verbatim>\<open>if x in node.metadata: metadata[x] = node.metadata[x]\<close>\<close>

definition copy_key :: "'f node_metadata \<Rightarrow> string \<Rightarrow> 'f metadata \<Rightarrow> 'f metadata" where
  "copy_key md x metadata =
     (if x = ''colormap''
      then (case md_colormap md of
              None \<Rightarrow> metadata
            | Some cms \<Rightarrow> metadata\<lparr>m_colormap := Some (ColormapList cms)\<rparr>)
      else (case md_fields md x of
              None \<Rightarrow> metadata
            | Some v \<Rightarrow> metadata\<lparr>m_fields := (m_fields metadata)(x \<mapsto> v)\<rparr>))"

text \<open>
  \<^verbatim>\<open>if x in node.metadata: try: metadata[x] = node.metadata[x][0] except Exception: pass\<close>
\<close>

definition copy_first_key :: "'f node_metadata \<Rightarrow> string \<Rightarrow> 'f metadata \<Rightarrow> 'f metadata" where
  "copy_first_key md x metadata =
     (if x = ''colormap''
      then (case md_colormap md of
              None \<Rightarrow> metadata
            | Some [] \<Rightarrow> metadata
            | Some (cm # cms) \<Rightarrow> metadata\<lparr>m_colormap := Some (ColormapItem cm)\<rparr>)
      else (case md_fields md x of
              None \<Rightarrow> metadata
            | Some v \<Rightarrow>
                (case first_item v of
                   Inl e \<Rightarrow> metadata
                 | Inr v0 \<Rightarrow> metadata\<lparr>m_fields := (m_fields metadata)(x \<mapsto> v0)\<rparr>)))"

text \<open>\<^verbatim>\<open>np.squeeze(level, axis=channel_axis)\<close> on the shape of the array.\<close>

definition squeeze :: "nat \<Rightarrow> nat list \<Rightarrow> error + nat list" where
  "squeeze axis shape =
     (if axis < length shape \<and> shape ! axis = 1
      then Inr (take axis shape @ drop (Suc axis) shape)
      else Inl ValueError)"

fun squeeze_levels :: "nat \<Rightarrow> nat list list \<Rightarrow> error + nat list list" where
  "squeeze_levels axis [] = Inr []"
| "squeeze_levels axis (level # rest) =
     (case squeeze axis level of
        Inl e \<Rightarrow> Inl e
      | Inr l \<Rightarrow> (case squeeze_levels axis rest of Inl e \<Rightarrow> Inl e | Inr ls \<Rightarrow> Inr (l # ls)))"

text \<open>The branch \<^verbatim>\<open>if node.load(Label)\<close>; \<open>node_data\<close> is \<^verbatim>\<open>node.data\<close>.\<close>

definition label_branch ::
  "'f node_metadata \<Rightarrow> 'f metadata \<Rightarrow> nat option \<Rightarrow> nat list list \<Rightarrow> data_out
     \<Rightarrow> error + ('f metadata \<times> data_out \<times> string)" where
  "label_branch md metadata channel_axis node_data data0 =
     (let metadata = fold (copy_key md) METADATA_KEYS metadata
      in case (case channel_axis of
                 None \<Rightarrow> Inr data0
               | Some c \<Rightarrow> (case squeeze_levels c node_data of Inl e \<Rightarrow> Inl e | Inr ls \<Rightarrow> Inr (Pyramid ls))) of
           Inl e \<Rightarrow> Inl e
         | Inr data1 \<Rightarrow>
             (let properties = transform_properties (md_properties md);
                  metadata = (case properties of
                                None \<Rightarrow> metadata
                              | Some ps \<Rightarrow> metadata\<lparr>m_properties := Some ps\<rparr>)
              in Inr (metadata, data1, ''labels'')))"

text \<open>\<^verbatim>\<open>if not isinstance(cm, Colormap): cms[idx] = Colormap(cm)\<close>\<close>

fun to_colormap :: "cmap \<Rightarrow> cmap" where
  "to_colormap (ColormapSpec cm) = Colormap cm"
| "to_colormap (Colormap cm) = Colormap cm"

text \<open>The \<^verbatim>\<open>else\<close> branch, for an image; it writes the colormaps into the node's list.\<close>

definition image_branch ::
  "'f node_metadata \<Rightarrow> 'f metadata \<Rightarrow> nat option \<Rightarrow> data_out
     \<Rightarrow> 'f node_metadata \<times> ('f metadata \<times> data_out \<times> string)" where
  "image_branch md metadata channel_axis data0 =
     (let md = md\<lparr>md_colormap := map_option (map to_colormap) (md_colormap md)\<rparr>
      in case channel_axis of
           Some c \<Rightarrow>
             (md, fold (copy_key md) METADATA_KEYS (metadata\<lparr>m_channel_axis := Some c\<rparr>), data0, ''image'')
         | None \<Rightarrow>
             (md, fold (copy_first_key md) METADATA_KEYS metadata, data0, ''image''))"

text \<open>
  The single-channel attachment: \<^verbatim>\<open>metadata["metadata"] = dict()\<close> when the key is
  absent, then \<^verbatim>\<open>metadata["metadata"][EXTRA_METADATA_KEY] = make_extras(...)\<close>.
\<close>

definition attach_single ::
  "('su, 'tu) units \<Rightarrow> 'f metadata \<Rightarrow> ('su, 'tu) Axis list \<Rightarrow> ('f, 'su, 'tu) store
     \<Rightarrow> ('f, 'su, 'tu) store \<times> (error + 'f metadata)" where
  "attach_single env metadata axes st =
     (case (case m_fields metadata ''metadata'' of
              None \<Rightarrow> (case alloc [] st of
                          (a, st') \<Rightarrow> (metadata\<lparr>m_fields := (m_fields metadata)(''metadata'' \<mapsto> PRef a)\<rparr>, st'))
            | Some m \<Rightarrow> (metadata, st)) of
        (metadata, st) \<Rightarrow>
          (let name = (case m_fields metadata ''name'' of None \<Rightarrow> PNone | Some n \<Rightarrow> n);
               extras = make_extras metadata axes name
           in case setitem (the (m_fields metadata ''metadata'')) (EXTRA_METADATA_KEY env) (Extra extras) st of
                Inl e \<Rightarrow> (st, Inl e)
              | Inr st' \<Rightarrow> (st', Inr metadata)))"

text \<open>\<^verbatim>\<open>(data[0] if isinstance(data, list) else data).shape[channel_axis]\<close>\<close>

definition n_channels_of :: "data_out \<Rightarrow> nat \<Rightarrow> error + nat" where
  "n_channels_of data1 channel_axis =
     (case (case data1 of
              Pyramid [] \<Rightarrow> Inl IndexError
            | Pyramid (level # levels) \<Rightarrow> Inr level
            | Level level \<Rightarrow> Inr level) of
        Inl e \<Rightarrow> Inl e
      | Inr shape \<Rightarrow> if channel_axis < length shape then Inr (shape ! channel_axis) else Inl IndexError)"

text \<open>
  \<^verbatim>\<open>for n, m in zip(name, metadata["metadata"]): m[EXTRA_METADATA_KEY] = make_extras(...)\<close>
\<close>

fun attach_loop ::
  "('su, 'tu) units \<Rightarrow> 'f metadata \<Rightarrow> ('su, 'tu) Axis list \<Rightarrow> (pyval \<times> pyval) list
     \<Rightarrow> ('f, 'su, 'tu) store \<Rightarrow> ('f, 'su, 'tu) store \<times> error option" where
  "attach_loop env metadata axes [] st = (st, None)"
| "attach_loop env metadata axes ((n, m) # rest) st =
     (case setitem m (EXTRA_METADATA_KEY env) (Extra (make_extras metadata axes n)) st of
        Inl e \<Rightarrow> (st, Some e)
      | Inr st' \<Rightarrow> attach_loop env metadata axes rest st')"

text \<open>
  The multi-channel attachment. \<^verbatim>\<open>[deepcopy(meta)] * n_channels\<close> is the list that
  holds the one copy \<open>n_channels\<close> times. The \<^verbatim>\<open>dict()\<close> that is the default of
  \<^verbatim>\<open>metadata.get\<close> is reachable only through its copy, so the copy alone is allocated.
\<close>

definition attach_multi ::
  "('su, 'tu) units \<Rightarrow> nat \<Rightarrow> data_out \<Rightarrow> 'f metadata \<Rightarrow> ('su, 'tu) Axis list \<Rightarrow> ('f, 'su, 'tu) store
     \<Rightarrow> ('f, 'su, 'tu) store \<times> (error + 'f metadata)" where
  "attach_multi env channel_axis data1 metadata axes st =
     (case n_channels_of data1 channel_axis of
        Inl e \<Rightarrow> (st, Inl e)
      | Inr n_channels \<Rightarrow>
          (case (case m_fields metadata ''metadata'' of
                   Some (PList ms) \<Rightarrow> (metadata, st)
                 | Some meta \<Rightarrow>
                     (case deepcopy meta st of
                        (c, st') \<Rightarrow>
                          (metadata\<lparr>m_fields := (m_fields metadata)(''metadata'' \<mapsto> PList (replicate n_channels c))\<rparr>, st'))
                 | None \<Rightarrow>
                     (case alloc [] st of
                        (a, st') \<Rightarrow>
                          (metadata\<lparr>m_fields := (m_fields metadata)(''metadata'' \<mapsto> PList (replicate n_channels (PRef a)))\<rparr>, st'))) of
             (metadata, st) \<Rightarrow>
               (let name = (case m_fields metadata ''name'' of
                              Some (PList ns) \<Rightarrow> ns
                            | Some n \<Rightarrow> replicate n_channels n
                            | None \<Rightarrow> replicate n_channels PNone);
                    ms = (case m_fields metadata ''metadata'' of Some (PList ms) \<Rightarrow> ms | _ \<Rightarrow> [])
                in case attach_loop env metadata axes (zip name ms) st of
                     (st', Some e) \<Rightarrow> (st', Inl e)
                   | (st', None) \<Rightarrow> (st', Inr metadata))))"

text \<open>
  The body of the loop of \<^verbatim>\<open>f\<close> for one node. The state is the store and the log
  (the calls of \<^verbatim>\<open>LOGGER\<close> and \<^verbatim>\<open>warnings.warn\<close>); the node's metadata is returned as
  the code leaves it. The result is the exception raised, \<open>None\<close> for a skipped node,
  or the tuple appended to \<^verbatim>\<open>results\<close>.
\<close>

definition finish_node ::
  "('su, 'tu) units \<Rightarrow> ('f, 'su, 'tu) store \<times> event list \<Rightarrow> nat option \<Rightarrow> 'f node_metadata
     \<Rightarrow> 'f metadata \<times> data_out \<times> string
     \<Rightarrow> (('f, 'su, 'tu) store \<times> event list) \<times> 'f node_metadata \<times> (error + 'f layer_data option)" where
  "finish_node env s channel_axis md r =
     (case s of (st, lg) \<Rightarrow>
      (case r of (metadata, data1, layer_type) \<Rightarrow>
      (case get_axes env (md_axes md) of
         Inl e \<Rightarrow> ((st, lg), md, Inl e)
       | Inr (axes, warns) \<Rightarrow>
           (case (case channel_axis of
                    None \<Rightarrow> attach_single env metadata axes st
                  | Some c \<Rightarrow> attach_multi env c data1 metadata axes st) of
              (st', Inl e) \<Rightarrow> ((st', lg @ warns), md, Inl e)
            | (st', Inr metadata') \<Rightarrow>
                ((st', lg @ warns @ [Log DEBUG ''Transformed'']), md,
                 Inr (Some (data1, metadata', layer_type)))))))"

definition transform_node ::
  "('su, 'tu) units \<Rightarrow> ('f, 'su, 'tu) store \<times> event list \<Rightarrow> 'f node
     \<Rightarrow> (('f, 'su, 'tu) store \<times> event list) \<times> 'f node_metadata \<times> (error + 'f layer_data option)" where
  "transform_node env s node =
     (case s of (st, lg) \<Rightarrow>
      (case n_data node of
         None \<Rightarrow> ((st, lg @ [Log DEBUG ''skipping non-data'']), n_metadata node, Inr None)
       | Some data \<Rightarrow>
           if length data < 1
           then ((st, lg @ [Log DEBUG ''skipping non-data'']), n_metadata node, Inr None)
           else
             (let md = n_metadata node;
                  lg = lg @ [Log DEBUG ''transforming'', Log DEBUG ''node.metadata'']
              in case detect_channel_axis (md_axes md) of
                   Inl e \<Rightarrow>
                     ((st, lg @ [Log ERROR ''Error reading axes: Please update ome-zarr'']), md, Inl e)
                 | Inr channel_axis \<Rightarrow>
                     (case transform_scale (md_coordinateTransformations md) (None, None) channel_axis of
                        (ct, out, Some e) \<Rightarrow>
                          ((st, lg), md\<lparr>md_coordinateTransformations := ct\<rparr>, Inl e)
                      | (ct, out, None) \<Rightarrow>
                          (let md = md\<lparr>md_coordinateTransformations := ct\<rparr>;
                               metadata = empty_metadata\<lparr>m_scale := fst out, m_translate := snd out\<rparr>;
                               data0 = (if length data = 1 then Level (hd data) else Pyramid data);
                               md = wrap_name channel_axis md
                           in if n_is_label node
                              then (case label_branch md metadata channel_axis data data0 of
                                      Inl e \<Rightarrow> ((st, lg), md, Inl e)
                                    | Inr r \<Rightarrow> finish_node env (st, lg) channel_axis md r)
                              else (case image_branch md metadata channel_axis data0 of
                                      (md', r) \<Rightarrow> finish_node env (st, lg) channel_axis md' r))))))"

subsection \<open>\<^verbatim>\<open>transform\<close>: the reader function\<close>

text \<open>
  The function \<^verbatim>\<open>f\<close> that \<^verbatim>\<open>transform(nodes)\<close> returns, run on the nodes the iterator
  yields: the final state, the metadata of every node as the run leaves it, and the
  exception that ends the run or the list \<^verbatim>\<open>results\<close>.
\<close>

fun transform ::
  "('su, 'tu) units \<Rightarrow> 'f node list \<Rightarrow> ('f, 'su, 'tu) store \<times> event list
     \<Rightarrow> (('f, 'su, 'tu) store \<times> event list) \<times> 'f node_metadata list \<times> (error + 'f layer_data list)" where
  "transform env [] s = (s, [], Inr [])"
| "transform env (node # nodes) s =
     (case transform_node env s node of
        (s1, md, Inl e) \<Rightarrow> (s1, md # map n_metadata nodes, Inl e)
      | (s1, md, Inr rv) \<Rightarrow>
          (case transform env nodes s1 of
             (s2, mds, Inl e) \<Rightarrow> (s2, md # mds, Inl e)
           | (s2, mds, Inr results) \<Rightarrow>
               (s2, md # mds, Inr (case rv of None \<Rightarrow> results | Some r \<Rightarrow> r # results))))"

subsection \<open>Auxiliary notions and example inputs\<close>

text \<open>The canonical units of the space axes of a list, in order.\<close>

fun space_units_of :: "('su, 'tu) Axis list \<Rightarrow> 'su list" where
  "space_units_of [] = []"
| "space_units_of (SpaceAxis n u # axes) = u # space_units_of axes"
| "space_units_of (TimeAxis n u # axes) = space_units_of axes"

text \<open>A small registry for the examples: two space units, one time unit.\<close>

definition example_units :: "(string, string) units" where
  "example_units =
     \<lparr>space_from_name = (\<lambda>s. if s \<in> set [''micrometer'', ''meter''] then s else ''none''),
      time_from_name = (\<lambda>s. if s = ''second'' then s else ''none''),
      space_NONE = ''none'',
      get_unit_name = (\<lambda>u. u),
      EXTRA_METADATA_KEY = ''napari-metadata-plugin''\<rparr>"

definition mixed_axes :: "axis_desc list" where
  "mixed_axes =
     [\<lparr>d_name = Some ''t'', d_unit = Some ''second'', d_type = Some ''time''\<rparr>,
      \<lparr>d_name = Some ''y'', d_unit = Some ''meter'', d_type = Some ''space''\<rparr>,
      \<lparr>d_name = Some ''x'', d_unit = Some ''micrometer'', d_type = None\<rparr>]"

text \<open>The list without the entry of the channel axis, and whether it has such an entry.\<close>

definition remove_channel :: "nat option \<Rightarrow> 'a list \<Rightarrow> 'a list" where
  "remove_channel channel_axis xs =
     (case channel_axis of None \<Rightarrow> xs | Some i \<Rightarrow> take i xs @ drop (Suc i) xs)"

definition has_channel_entry :: "nat option \<Rightarrow> 'a list \<Rightarrow> bool" where
  "has_channel_entry channel_axis xs = (case channel_axis of None \<Rightarrow> True | Some i \<Rightarrow> i < length xs)"

text \<open>The last value that is present, as a loop that overwrites leaves it.\<close>

fun last_given :: "'a option list \<Rightarrow> 'a option" where
  "last_given [] = None"
| "last_given (x # xs) = (case last_given xs of None \<Rightarrow> x | Some v \<Rightarrow> Some v)"

text \<open>An entry of a level after the channel entry is popped from its arrays.\<close>

definition popped :: "nat option \<Rightarrow> 'f transf \<Rightarrow> 'f transf" where
  "popped channel_axis transf =
     transf\<lparr>t_scale := map_option (remove_channel channel_axis) (t_scale transf),
            t_translation := map_option (remove_channel channel_axis) (t_translation transf)\<rparr>"

definition arrays_in_range :: "nat option \<Rightarrow> 'f transf \<Rightarrow> bool" where
  "arrays_in_range channel_axis transf =
     ((case t_scale transf of None \<Rightarrow> True | Some s \<Rightarrow> has_channel_entry channel_axis s) \<and>
      (case t_translation transf of None \<Rightarrow> True | Some s \<Rightarrow> has_channel_entry channel_axis s))"

definition later :: "'a option \<Rightarrow> 'a option \<Rightarrow> 'a option" where
  "later acc x = (case x of None \<Rightarrow> acc | Some v \<Rightarrow> Some v)"

text \<open>A level with two entries that both have a scale.\<close>

definition two_scales :: "real transf list" where
  "two_scales = [\<lparr>t_scale = Some [1, 2], t_translation = None\<rparr>,
                 \<lparr>t_scale = Some [3, 4], t_translation = None\<rparr>]"

text \<open>A node whose data is present and not empty, and the log entries the claims name.\<close>

definition has_data :: "'f node \<Rightarrow> bool" where
  "has_data node = (case n_data node of None \<Rightarrow> False | Some data \<Rightarrow> data \<noteq> [])"

definition skipping :: event where
  "skipping = Log DEBUG ''skipping non-data''"

definition error_reading_axes :: "event list" where
  "error_reading_axes =
     [Log DEBUG ''transforming'', Log DEBUG ''node.metadata'',
      Log ERROR ''Error reading axes: Please update ome-zarr'']"

text \<open>The tuple is what the loop body appends for the node, from some state.\<close>

definition yields :: "('su, 'tu) units \<Rightarrow> 'f node \<Rightarrow> 'f layer_data \<Rightarrow> bool" where
  "yields env node r = (\<exists>s0 s1 md. transform_node env s0 node = (s1, md, Inr (Some r)))"

text \<open>Example inputs: nodes without axes, with untyped axes, and without data.\<close>

definition empty_store :: "(real, string, string) store" where
  "empty_store = \<lparr>objs = (\<lambda>a. []), next_addr = 0\<rparr>"

definition untyped_axes :: "axis_desc list" where
  "untyped_axes =
     [\<lparr>d_name = Some ''y'', d_unit = None, d_type = None\<rparr>,
      \<lparr>d_name = Some ''x'', d_unit = None, d_type = None\<rparr>]"

definition plain_metadata :: "axis_desc list option \<Rightarrow> real node_metadata" where
  "plain_metadata axes_field =
     \<lparr>md_axes = axes_field, md_coordinateTransformations = None, md_properties = None,
      md_colormap = None, md_fields = Map.empty\<rparr>"

definition no_axes_node :: "real node" where
  "no_axes_node = \<lparr>n_data = Some [[4, 4]], n_metadata = plain_metadata None, n_is_label = False\<rparr>"

definition untyped_node :: "real node" where
  "untyped_node = \<lparr>n_data = Some [[4, 4]], n_metadata = plain_metadata (Some untyped_axes), n_is_label = False\<rparr>"

definition skipped_untyped_node :: "real node" where
  "skipped_untyped_node = \<lparr>n_data = None, n_metadata = plain_metadata (Some untyped_axes), n_is_label = False\<rparr>"

text \<open>A two-channel image with per-channel names and no \<^verbatim>\<open>metadata\<close> field.\<close>

definition cyx_axes :: "axis_desc list" where
  "cyx_axes =
     [\<lparr>d_name = Some ''c'', d_unit = None, d_type = Some ''channel''\<rparr>,
      \<lparr>d_name = Some ''y'', d_unit = Some ''micrometer'', d_type = Some ''space''\<rparr>,
      \<lparr>d_name = Some ''x'', d_unit = Some ''micrometer'', d_type = Some ''space''\<rparr>]"

definition two_channel_node :: "real node" where
  "two_channel_node =
     \<lparr>n_data = Some [[2, 4, 4]],
      n_metadata =
        \<lparr>md_axes = Some cyx_axes,
         md_coordinateTransformations = Some [[\<lparr>t_scale = Some [1, 0.2, 0.2], t_translation = None\<rparr>]],
         md_properties = None,
         md_colormap = None,
         md_fields = [''name'' \<mapsto> PList [PStr ''a'', PStr ''b'']]\<rparr>,
      n_is_label = False\<rparr>"

text \<open>The mapping of a channel in the output, and the object a reference names.\<close>

definition channel_ref :: "'f metadata \<Rightarrow> nat \<Rightarrow> pyval" where
  "channel_ref metadata i =
     (case m_fields metadata ''metadata'' of
        Some (PList ms) \<Rightarrow> if i < length ms then ms ! i else PNone
      | _ \<Rightarrow> PNone)"

definition mapping_of :: "('f, 'su, 'tu) store \<Rightarrow> pyval \<Rightarrow> ('f, 'su, 'tu) dict_obj" where
  "mapping_of st m = (case m of PRef a \<Rightarrow> objs st a | _ \<Rightarrow> [])"

text \<open>The name recorded in the extra metadata of a channel.\<close>

definition channel_name :: "('su, 'tu) units \<Rightarrow> ('f, 'su, 'tu) store \<Rightarrow> 'f metadata \<Rightarrow> nat \<Rightarrow> pyval option" where
  "channel_name env st metadata i =
     (case map_of (mapping_of st (channel_ref metadata i)) (EXTRA_METADATA_KEY env) of
        Some (Extra e) \<Rightarrow> Some (o_name (e_original e))
      | _ \<Rightarrow> None)"

text \<open>A store with one mapping, and a three-channel image whose \<^verbatim>\<open>metadata\<close> field is that mapping.\<close>

definition one_mapping_store :: "(real, string, string) store" where
  "one_mapping_store = \<lparr>objs = (\<lambda>a. [])(0 := [(''source'', Json (JStr ''zarr''))]), next_addr = 1\<rparr>"

definition three_channel_node :: "real node" where
  "three_channel_node =
     \<lparr>n_data = Some [[3, 4, 4]],
      n_metadata =
        \<lparr>md_axes = Some cyx_axes,
         md_coordinateTransformations = None,
         md_properties = None,
         md_colormap = None,
         md_fields = [''name'' \<mapsto> PStr ''ch'', ''metadata'' \<mapsto> PRef 0]\<rparr>,
      n_is_label = False\<rparr>"





text \<open>The property names of all labels, each once, in the order of first appearance.\<close>

definition add_key :: "string \<Rightarrow> string list \<Rightarrow> string list" where
  "add_key key keys = (if key \<in> set keys then keys else keys @ [key])"

definition property_names :: "('l, 'v) props \<Rightarrow> string list" where
  "property_names props = fold add_key (concat (map (\<lambda>(label_id, props_dict). map fst props_dict) props)) []"

text \<open>The column of a key: the label identifiers under \<^verbatim>\<open>index\<close>, the values or \<open>None\<close> otherwise.\<close>

definition column :: "('l, 'v) props \<Rightarrow> string \<Rightarrow> ('l, 'v) cell list" where
  "column props key =
     (if key = ''index'' then map (\<lambda>(label_id, props_dict). LabelId label_id) props
      else map (\<lambda>(label_id, props_dict). dict_get_none props_dict key) props)"

definition pivot :: "('l, 'v) props \<Rightarrow> ('l, 'v) properties" where
  "pivot props = map (\<lambda>key. (key, column props key)) (property_names props @ [''index''])"

section \<open>Properties\<close>

subsection \<open>Reconciling the units of the space axes\<close>

lemma space_unit_names_map:
  "space_unit_names env axes = map (get_unit_name env) (space_units_of axes)"
  by (induction axes rule: space_units_of.induct) simp_all

lemma collect_axes_total:
  "\<forall>d\<in>set descs. d_name d \<noteq> None \<Longrightarrow> \<exists>axes. collect_axes env descs = Inr axes"
proof (induction descs)
  case Nil
  show ?case by simp
next
  case (Cons d ds)
  then obtain axes where a: "collect_axes env ds = Inr axes" by auto
  from Cons.prems obtain n where n: "d_name d = Some n" by auto
  have "\<exists>r. get_axis env d = Inr r"
    using n by (simp add: get_axis_def Let_def)
  then obtain r where r: "get_axis env d = Inr r" ..
  show ?case using a r by simp
qed

lemma set_unit_none_space:
  "SpaceAxis n u \<in> set (map (set_unit_none env) axes) \<Longrightarrow> u = space_NONE env"
proof (induction axes)
  case Nil
  then show ?case by simp
next
  case (Cons a axes)
  then show ?case by (cases a) auto
qed

text \<open>
  C5. When every descriptor has a name, \<^verbatim>\<open>get_axes\<close> returns and does not raise.
  If the space axes it classifies carry two or more distinct canonical units (and the
  unit name identifies the unit), every space axis of the result has the unit
  \<^verbatim>\<open>NONE\<close>, the time axes and the order are kept, and one warning naming the set of
  conflicting units is emitted; if they carry at most one unit, the axes are returned
  with their resolved units and there is no warning.
\<close>

theorem get_axes_mixed_units:
  assumes names: "\<forall>d\<in>set descs. d_name d \<noteq> None"
    and inj: "inj (get_unit_name env)"
  shows "\<exists>axes. collect_axes env descs = Inr axes \<and>
           (1 < card (set (space_units_of axes)) \<longrightarrow>
              get_axes env (Some descs) =
                Inr (map (set_unit_none env) axes,
                     [UserWarning (get_unit_name env ` set (space_units_of axes))]) \<and>
              (\<forall>n u. SpaceAxis n u \<in> set (map (set_unit_none env) axes) \<longrightarrow> u = space_NONE env)) \<and>
           (card (set (space_units_of axes)) \<le> 1 \<longrightarrow> get_axes env (Some descs) = Inr (axes, []))"
proof -
  from collect_axes_total[OF names] obtain axes where a: "collect_axes env descs = Inr axes" by blast
  have c: "card (set (space_unit_names env axes)) = card (set (space_units_of axes))"
    using inj by (simp add: space_unit_names_map card_image inj_on_def inj_def)
  have s: "set (space_unit_names env axes) = get_unit_name env ` set (space_units_of axes)"
    by (simp add: space_unit_names_map)
  have "1 < card (set (space_units_of axes)) \<Longrightarrow>
          get_axes env (Some descs) =
            Inr (map (set_unit_none env) axes, [UserWarning (get_unit_name env ` set (space_units_of axes))])"
    using a c s by (simp add: get_axes_def Let_def)
  moreover have "card (set (space_units_of axes)) \<le> 1 \<Longrightarrow> get_axes env (Some descs) = Inr (axes, [])"
    using a c by (simp add: get_axes_def Let_def)
  moreover have "\<forall>n u. SpaceAxis n u \<in> set (map (set_unit_none env) axes) \<longrightarrow> u = space_NONE env"
    by (intro allI impI) (erule set_unit_none_space)
  ultimately have "collect_axes env descs = Inr axes \<and>
           (1 < card (set (space_units_of axes)) \<longrightarrow>
              get_axes env (Some descs) =
                Inr (map (set_unit_none env) axes,
                     [UserWarning (get_unit_name env ` set (space_units_of axes))]) \<and>
              (\<forall>n u. SpaceAxis n u \<in> set (map (set_unit_none env) axes) \<longrightarrow> u = space_NONE env)) \<and>
           (card (set (space_units_of axes)) \<le> 1 \<longrightarrow> get_axes env (Some descs) = Inr (axes, []))"
    using a by blast
  then show ?thesis ..
qed

theorem get_axes_mixed_units_witness:
  "map d_name mixed_axes = [Some ''t'', Some ''y'', Some ''x''] \<and> inj (get_unit_name example_units) \<and>
   get_axes example_units (Some mixed_axes) =
     Inr ([TimeAxis ''t'' ''second'', SpaceAxis ''y'' ''none'', SpaceAxis ''x'' ''none''],
          [UserWarning {''meter'', ''micrometer''}])"
proof -
  have h1: "\<forall>d\<in>set mixed_axes. d_name d \<noteq> None" by (simp add: mixed_axes_def)
  have h2: "inj (get_unit_name example_units)" by (simp add: example_units_def inj_def)
  have ax: "collect_axes example_units mixed_axes =
      Inr [TimeAxis ''t'' ''second'', SpaceAxis ''y'' ''meter'', SpaceAxis ''x'' ''micrometer'']"
    by (simp add: mixed_axes_def get_axis_def example_units_def)
  from get_axes_mixed_units[OF h1 h2] ax
  have "get_axes example_units (Some mixed_axes) =
     Inr ([TimeAxis ''t'' ''second'', SpaceAxis ''y'' ''none'', SpaceAxis ''x'' ''none''],
          [UserWarning {''meter'', ''micrometer''}])"
    by (simp add: example_units_def insert_commute)
  moreover have "map d_name mixed_axes = [Some ''t'', Some ''y'', Some ''x'']"
    by (simp add: mixed_axes_def)
  ultimately show ?thesis using h2 by blast
qed

subsection \<open>Scale and translation\<close>

lemma pop_channel_in_range:
  "has_channel_entry c xs \<Longrightarrow> pop_channel c xs = Inr (remove_channel c xs)"
  by (simp add: has_channel_entry_def pop_channel_def pop_def remove_channel_def split: option.splits)

lemma transf_step_in_range:
  assumes "arrays_in_range c t"
  shows "transf_step c t out =
           (popped c t,
            (later (fst out) (map_option (remove_channel c) (t_scale t)),
             later (snd out) (map_option (remove_channel c) (t_translation t))),
            None)"
  using assms
  by (cases out) (auto simp: arrays_in_range_def transf_step_def popped_def later_def pop_channel_in_range
      split: option.splits)

lemma transf_loop_in_range:
  assumes "list_all (arrays_in_range c) ts"
  shows "transf_loop c ts out =
           (map (popped c) ts,
            (fold (\<lambda>t acc. later acc (map_option (remove_channel c) (t_scale t))) ts (fst out),
             fold (\<lambda>t acc. later acc (map_option (remove_channel c) (t_translation t))) ts (snd out)),
            None)"
  using assms
proof (induction ts arbitrary: out)
  case Nil
  show ?case by simp
next
  case (Cons t ts)
  then have t: "arrays_in_range c t" and ts: "list_all (arrays_in_range c) ts" by simp_all
  show ?case
    by (simp add: transf_step_in_range[OF t] Cons.IH[OF ts])
qed

lemma fold_later:
  "fold (\<lambda>t acc. later acc (g t)) ts init = later init (last_given (map g ts))"
proof (induction ts arbitrary: init)
  case Nil
  show ?case by (simp add: later_def)
next
  case (Cons t ts)
  have "fold (\<lambda>t acc. later acc (g t)) (t # ts) init = later (later init (g t)) (last_given (map g ts))"
    by (simp add: Cons.IH)
  also have "\<dots> = later init (last_given (map g (t # ts)))"
    by (simp add: later_def split: option.splits)
  finally show ?case .
qed

lemma last_given_map_option:
  "last_given (map (\<lambda>t. map_option h (f t)) ts) = map_option h (last_given (map f ts))"
  by (induction ts) (simp_all split: option.splits)

text \<open>
  C4 (as amended). When every scale and translation array of the first level has an
  entry at the channel axis index (or there is no channel axis), \<^verbatim>\<open>transform_scale\<close>
  raises nothing and outputs, for the scale and for the translation, the array of the
  last entry of the level that has one, without its entry at the channel axis index;
  the output is \<open>None\<close> when no entry has the array. When
  \<^verbatim>\<open>coordinateTransformations\<close> is absent both outputs are \<open>None\<close> and nothing is raised.
\<close>

theorem transform_scale_extracts:
  fixes level_0 :: "'f transf list"
  assumes "list_all (arrays_in_range channel_axis) level_0"
  shows "snd (transform_scale (Some (level_0 # levels)) (None, None) channel_axis) =
           ((map_option (remove_channel channel_axis) (last_given (map t_scale level_0)),
             map_option (remove_channel channel_axis) (last_given (map t_translation level_0))),
            None) \<and>
         snd (transform_scale (None :: 'f transf list list option) (None, None) channel_axis) =
           ((None, None), None)"
proof -
  have "transf_loop channel_axis level_0 (None, None) =
          (map (popped channel_axis) level_0,
           (map_option (remove_channel channel_axis) (last_given (map t_scale level_0)),
            map_option (remove_channel channel_axis) (last_given (map t_translation level_0))),
           None)"
    unfolding transf_loop_in_range[OF assms] fold_later last_given_map_option
    by (simp add: later_def split: option.splits)
  then show ?thesis
    by (simp add: transform_scale_def)
qed


text \<open>
  C4 as stated fails: of two entries with a scale the second one is output, not the
  first; and an array with no entry at the channel axis index raises \<^verbatim>\<open>IndexError\<close>.
\<close>

theorem transform_scale_counterexample:
  "t_scale (hd two_scales) = Some [1, 2] \<and>
   transform_scale (Some [two_scales]) (None, None) None = (Some [two_scales], (Some [3, 4], None), None) \<and>
   transform_scale (Some [[\<lparr>t_scale = Some [0.2, 0.2 :: real], t_translation = None\<rparr>]]) (None, None) (Some 2) =
     (Some [[\<lparr>t_scale = Some [0.2, 0.2], t_translation = None\<rparr>]], (None, None), Some IndexError)"
  by (simp add: two_scales_def transform_scale_def transf_step_def pop_channel_def pop_def)

theorem transform_scale_extracts_witness:
  "snd (transform_scale (Some [[\<lparr>t_scale = Some [1, 0.2, 0.2 :: real], t_translation = None\<rparr>]]) (None, None) (Some 0)) =
     ((Some [0.2, 0.2], None), None)"
proof -
  have "list_all (arrays_in_range (Some 0)) [\<lparr>t_scale = Some [1, 0.2, 0.2 :: real], t_translation = None\<rparr>]"
    by (simp add: arrays_in_range_def has_channel_entry_def)
  from transform_scale_extracts[OF this, of "[]"] show ?thesis
    by (simp add: remove_channel_def)
qed


subsection \<open>The pivot of the label properties\<close>

text \<open>
  C6. On the example of the specification the pivot is as claimed. A label with a
  property named \<^verbatim>\<open>index\<close> makes the synthetic key collide: the list under
  \<^verbatim>\<open>index\<close> then holds the label identifier and the property value in turn, two
  elements for one label.
\<close>

theorem transform_properties_index_collision:
  "transform_properties (Some [(1 :: nat, [(''roiId'', 10 :: nat)]), (2, [(''roiId'', 11), (''shapeId'', 99)])]) =
     Some [(''roiId'', [Value 10, Value 11]), (''shapeId'', [PyNone, Value 99]),
           (''index'', [LabelId 1, LabelId 2])] \<and>
   transform_properties (Some [(1 :: nat, [(''index'', 7 :: nat)])]) =
     Some [(''index'', [LabelId 1, Value 7])]"
  by (simp add: transform_properties_def create_lists_def append_label_def dict_append_def dict_get_none_def)

subsection \<open>The run over the nodes\<close>

lemma transform_node_no_data:
  "\<not> has_data node \<Longrightarrow>
     transform_node env (st, lg) node = ((st, lg @ [skipping]), n_metadata node, Inr None)"
  by (auto simp: has_data_def transform_node_def skipping_def split: option.splits)

lemma transform_node_detect_fails:
  assumes "has_data node" and "detect_channel_axis (md_axes (n_metadata node)) = Inl e"
  shows "transform_node env (st, lg) node = ((st, lg @ error_reading_axes), n_metadata node, Inl e)"
  using assms
  by (auto simp: has_data_def transform_node_def error_reading_axes_def Let_def split: option.splits)

lemma transform_append_ok:
  assumes "transform env pre s = (s1, mds, Inr rs)"
  shows "transform env (pre @ rest) s =
           (case transform env rest s1 of
              (s2, mds2, r) \<Rightarrow> (s2, mds @ mds2, (case r of Inl e \<Rightarrow> Inl e | Inr rs2 \<Rightarrow> Inr (rs @ rs2))))"
  using assms
proof (induction pre arbitrary: s mds rs)
  case Nil
  then show ?case by (auto split: prod.splits sum.splits)
next
  case (Cons node pre)
  show ?case
    using Cons.prems
    by (auto split: prod.splits sum.splits option.splits simp: Cons.IH)
qed

lemma transform_raises_anywhere:
  assumes "\<And>s. \<exists>s1 md e. transform_node env s node = (s1, md, Inl e)"
  shows "\<exists>e. snd (snd (transform env (pre @ node # post) s)) = Inl e"
proof (induction pre arbitrary: s)
  case Nil
  from assms[of s] obtain s1 md e where "transform_node env s node = (s1, md, Inl e)" by blast
  then show ?case by simp
next
  case (Cons a pre)
  obtain s1 md r where a: "transform_node env s a = (s1, md, r)" by (cases "transform_node env s a") auto
  show ?case
  proof (cases r)
    case (Inl e)
    with a show ?thesis by simp
  next
    case (Inr rv)
    from Cons.IH[of s1] obtain e where "snd (snd (transform env (pre @ node # post) s1)) = Inl e" ..
    with a Inr show ?thesis
      by (cases "transform env (pre @ node # post) s1") (auto split: sum.splits)
  qed
qed

text \<open>
  C7. Let reading the axis schema fail with \<open>e\<close> for a node that has data. Then a run
  over any node sequence that holds the node ends in an exception and returns no
  result list. When the run reaches the node (the nodes before it are processed and
  give results), the failure is logged at error severity and \<open>e\<close> itself is raised
  again: the run ends with \<open>e\<close>, the log ends with the error entry, and the results
  collected so far are dropped.
\<close>

theorem axis_schema_failure_aborts:
  assumes "has_data node"
    and "detect_channel_axis (md_axes (n_metadata node)) = Inl e"
  shows "(\<exists>e'. snd (snd (transform env (pre @ node # post) s)) = Inl e') \<and>
         (\<forall>st lg mds rs. transform env pre s = ((st, lg), mds, Inr rs) \<longrightarrow>
            transform env (pre @ node # post) s =
              ((st, lg @ error_reading_axes), mds @ map n_metadata (node # post), Inl e))"
proof -
  have "\<exists>s1 md e. transform_node env s node = (s1, md, Inl e)" for s
    using transform_node_detect_fails[OF assms, of env "fst s" "snd s"] by auto
  then have "\<exists>e'. snd (snd (transform env (pre @ node # post) s)) = Inl e'"
    by (rule transform_raises_anywhere)
  moreover have "\<forall>st lg mds rs. transform env pre s = ((st, lg), mds, Inr rs) \<longrightarrow>
            transform env (pre @ node # post) s =
              ((st, lg @ error_reading_axes), mds @ map n_metadata (node # post), Inl e)"
    by (auto simp: transform_append_ok transform_node_detect_fails[OF assms])
  ultimately show ?thesis by blast
qed

lemma ch_types_of_untyped:
  "d \<in> set descs \<Longrightarrow> d_type d = None \<Longrightarrow> ch_types_of descs = Inl KeyError"
proof (induction descs)
  case Nil
  then show ?case by simp
next
  case (Cons a descs)
  show ?case
  proof (cases "d_type a")
    case None
    then show ?thesis by simp
  next
    case (Some t)
    with Cons have "ch_types_of descs = Inl KeyError" by auto
    with Some show ?thesis by simp
  qed
qed

text \<open>
  C10 (as amended). For a node that has data and that the run reaches, an axis
  descriptor without a \<^verbatim>\<open>type\<close> key makes the channel-axis detection raise
  \<^verbatim>\<open>KeyError\<close>, which is logged and ends the run; yet \<^verbatim>\<open>get_axis\<close> classifies
  that descriptor, when it has a name, as a space axis.
\<close>

theorem untyped_axis_aborts:
  assumes "has_data node"
    and "md_axes (n_metadata node) = Some descs"
    and "d \<in> set descs"
    and "d_type d = None"
    and "transform env pre s = ((st, lg), mds, Inr rs)"
  shows "transform env (pre @ node # post) s =
           ((st, lg @ error_reading_axes), mds @ map n_metadata (node # post), Inl KeyError) \<and>
         (\<forall>n. d_name d = Some n \<longrightarrow>
            get_axis env d =
              Inr (Some (SpaceAxis n (space_from_name env (case d_unit d of None \<Rightarrow> ''none'' | Some u \<Rightarrow> u)))))"
proof -
  have "detect_channel_axis (md_axes (n_metadata node)) = Inl KeyError"
    using assms(2) ch_types_of_untyped[OF assms(3,4)] by (simp add: detect_channel_axis_def)
  then have "transform env (pre @ node # post) s =
           ((st, lg @ error_reading_axes), mds @ map n_metadata (node # post), Inl KeyError)"
    using assms(5) by (simp add: transform_append_ok transform_node_detect_fails[OF assms(1)])
  moreover have "\<forall>n. d_name d = Some n \<longrightarrow>
            get_axis env d =
              Inr (Some (SpaceAxis n (space_from_name env (case d_unit d of None \<Rightarrow> ''none'' | Some u \<Rightarrow> u))))"
    using assms(4) by (simp add: get_axis_def)
  ultimately show ?thesis by blast
qed

lemma get_axes_warns:
  "get_axes env a = Inr (axes, warns) \<Longrightarrow> skipping \<notin> set warns"
  by (auto simp: get_axes_def skipping_def Let_def split: option.splits sum.splits if_splits)

lemma finish_node_log:
  assumes "finish_node env (st, lg) c md r = ((st', lg'), md', res)"
  shows "\<exists>ext. lg' = lg @ ext \<and> skipping \<notin> set ext"
proof (cases "get_axes env (md_axes md)")
  case (Inl e)
  with assms show ?thesis by (auto simp: finish_node_def split: prod.splits)
next
  case (Inr p)
  obtain axes warns where p: "p = (axes, warns)" by (cases p)
  have w: "skipping \<notin> set warns" using Inr p get_axes_warns by blast
  have "lg' = lg @ warns \<or> lg' = lg @ warns @ [Log DEBUG ''Transformed'']"
    using assms Inr p by (auto simp: finish_node_def split: prod.splits sum.splits option.splits)
  then show ?thesis
  proof
    assume "lg' = lg @ warns"
    with w show ?thesis by blast
  next
    assume a: "lg' = lg @ warns @ [Log DEBUG ''Transformed'']"
    have "skipping \<notin> set (warns @ [Log DEBUG ''Transformed''])" using w by (simp add: skipping_def)
    with a show ?thesis by blast
  qed
qed

lemma finish_node_result:
  "finish_node env s c md r = (s', md', Inr res) \<Longrightarrow> res \<noteq> None"
  by (auto simp: finish_node_def split: prod.splits sum.splits option.splits)

lemma transform_node_data_log:
  assumes "has_data node" and "transform_node env (st, lg) node = ((st', lg'), md', res)"
  shows "(\<exists>ext. lg' = lg @ ext \<and> skipping \<notin> set ext) \<and> res \<noteq> Inr None"
proof -
  obtain data where d: "n_data node = Some data" "\<not> length data < 1"
    using assms(1) by (auto simp: has_data_def split: option.splits)
  let ?lg = "lg @ [Log DEBUG ''transforming'', Log DEBUG ''node.metadata'']"
  have pre: "skipping \<notin> set [Log DEBUG ''transforming'', Log DEBUG ''node.metadata'']"
    by (simp add: skipping_def)
  have ext: "\<exists>ext. l = lg @ ext \<and> skipping \<notin> set ext"
    if "\<exists>ext. l = ?lg @ ext \<and> skipping \<notin> set ext" for l
  proof -
    from that obtain ext where "l = ?lg @ ext" "skipping \<notin> set ext" by blast
    then have "l = lg @ ([Log DEBUG ''transforming'', Log DEBUG ''node.metadata''] @ ext) \<and>
        skipping \<notin> set ([Log DEBUG ''transforming'', Log DEBUG ''node.metadata''] @ ext)"
      using pre by simp
    then show ?thesis by blast
  qed
  show ?thesis
  proof (cases "detect_channel_axis (md_axes (n_metadata node))")
    case (Inl e)
    have "lg' = lg @ error_reading_axes" "res = Inl e"
      using assms(2) transform_node_detect_fails[OF assms(1) Inl, of env st lg] by simp_all
    moreover have "skipping \<notin> set error_reading_axes"
      by (simp add: skipping_def error_reading_axes_def)
    ultimately show ?thesis by blast
  next
    case (Inr c)
    obtain ct out r where ts:
      "transform_scale (md_coordinateTransformations (n_metadata node)) (None, None) c = (ct, out, r)"
      by (cases "transform_scale (md_coordinateTransformations (n_metadata node)) (None, None) c") auto
    show ?thesis
    proof (cases r)
      case (Some e)
      have "lg' = ?lg @ []" "res = Inl e"
        using assms(2) d Inr ts Some by (simp_all add: transform_node_def)
      then show ?thesis using ext[of lg'] by auto
    next
      case None
      have "(\<exists>e. lg' = ?lg \<and> res = Inl e) \<or>
            (\<exists>c' md r'. finish_node env (st, ?lg) c' md r' = ((st', lg'), md', res))"
        using assms(2) d Inr ts None
        by (auto simp: transform_node_def Let_def split: if_splits sum.splits prod.splits)
      then show ?thesis
      proof
        assume "\<exists>e. lg' = ?lg \<and> res = Inl e"
        then show ?thesis using ext[of lg'] by auto
      next
        assume "\<exists>c' md r'. finish_node env (st, ?lg) c' md r' = ((st', lg'), md', res)"
        then obtain c' md r' where f: "finish_node env (st, ?lg) c' md r' = ((st', lg'), md', res)"
          by blast
        have "res \<noteq> Inr None" using f
          by (cases res) (auto dest: finish_node_result)
        then show ?thesis using finish_node_log[OF f] ext[of lg'] by blast
      qed
    qed
  qed
qed

lemma transform_results:
  assumes "transform env nodes s = (s', mds, Inr results)"
  shows "list_all2 (yields env) (filter has_data nodes) results \<and>
         (\<exists>ext. snd s' = snd s @ ext \<and>
            count_list ext skipping = length (filter (\<lambda>node. \<not> has_data node) nodes))"
  using assms
proof (induction nodes arbitrary: s s' mds results)
  case Nil
  then show ?case by simp
next
  case (Cons node nodes)
  obtain st lg where s: "s = (st, lg)" by (cases s)
  obtain st1 lg1 md r1 where n: "transform_node env (st, lg) node = ((st1, lg1), md, r1)"
    by (cases "transform_node env (st, lg) node") auto
  obtain s2 mds2 r2 where t: "transform env nodes (st1, lg1) = (s2, mds2, r2)"
    by (cases "transform env nodes (st1, lg1)") auto
  from Cons.prems s n t obtain rv rs where r: "r1 = Inr rv" "r2 = Inr rs" "s2 = s'"
    "results = (case rv of None \<Rightarrow> rs | Some r \<Rightarrow> r # rs)"
    by (auto split: sum.splits)
  from Cons.IH[of "(st1, lg1)" s' mds2 rs] t r
  obtain ext where ih: "list_all2 (yields env) (filter has_data nodes) rs"
    "snd s' = lg1 @ ext" "count_list ext skipping = length (filter (\<lambda>node. \<not> has_data node) nodes)"
    by auto
  show ?case
  proof (cases "has_data node")
    case True
    from transform_node_data_log[OF True n] r obtain r' ext1 where
      rv: "rv = Some r'" and e1: "lg1 = lg @ ext1" "skipping \<notin> set ext1"
      by (cases rv) auto
    have y: "yields env node r'"
      unfolding yields_def using n r rv
      by (intro exI[of _ "(st, lg)"] exI[of _ "(st1, lg1)"] exI[of _ md]) simp
    have "snd s' = snd s @ (ext1 @ ext)" using ih(2) e1 s by simp
    moreover have "count_list (ext1 @ ext) skipping = length (filter (\<lambda>node. \<not> has_data node) (node # nodes))"
      using ih(3) e1(2) True by (simp add: count_list_0_iff)
    ultimately have "\<exists>ext. snd s' = snd s @ ext \<and>
            count_list ext skipping = length (filter (\<lambda>node. \<not> has_data node) (node # nodes))"
      by blast
    then show ?thesis using True r rv ih(1) y by simp
  next
    case False
    from transform_node_no_data[OF False, of env st lg] n r
    have rv: "rv = None" and e1: "lg1 = lg @ [skipping]" by auto
    have "snd s' = snd s @ ([skipping] @ ext)" using ih(2) e1 s by simp
    moreover have "count_list ([skipping] @ ext) skipping = length (filter (\<lambda>node. \<not> has_data node) (node # nodes))"
      using ih(3) False by simp
    ultimately have "\<exists>ext. snd s' = snd s @ ext \<and>
            count_list ext skipping = length (filter (\<lambda>node. \<not> has_data node) (node # nodes))"
      by blast
    then show ?thesis using False r rv ih(1) by simp
  qed
qed

text \<open>
  C9. When the reader function returns a list, the list holds exactly one tuple for
  each node that has data, in the order of the nodes, each tuple being what the loop
  body produces for its node; a node without data adds no tuple, adds one
  \<^verbatim>\<open>skipping non-data\<close> entry to the log, and raises nothing.
\<close>

theorem reader_one_tuple_per_data_node:
  assumes "transform env nodes s = (s', mds, Inr results)"
  shows "list_all2 (yields env) (filter has_data nodes) results \<and>
         length results = length (filter has_data nodes) \<and>
         (\<exists>ext. snd s' = snd s @ ext \<and>
            count_list ext skipping = length (filter (\<lambda>node. \<not> has_data node) nodes)) \<and>
         (\<forall>node\<in>set nodes. \<not> has_data node \<longrightarrow>
            (\<forall>st lg. transform_node env (st, lg) node = ((st, lg @ [skipping]), n_metadata node, Inr None)))"
proof -
  note r = transform_results[OF assms]
  have "length results = length (filter has_data nodes)"
    using r by (auto dest: list_all2_lengthD)
  moreover have "\<forall>node\<in>set nodes. \<not> has_data node \<longrightarrow>
            (\<forall>st lg. transform_node env (st, lg) node = ((st, lg @ [skipping]), n_metadata node, Inr None))"
    by (simp add: transform_node_no_data)
  ultimately show ?thesis using r by blast
qed

theorem axis_schema_failure_aborts_witness:
  "transform example_units [no_axes_node] (empty_store, []) =
     ((empty_store, error_reading_axes), [n_metadata no_axes_node], Inl KeyError)"
proof -
  have h: "has_data no_axes_node"
    by (simp add: has_data_def no_axes_node_def)
  have d: "detect_channel_axis (md_axes (n_metadata no_axes_node)) = Inl KeyError"
    by (simp add: detect_channel_axis_def no_axes_node_def plain_metadata_def)
  from axis_schema_failure_aborts[OF h d, of example_units "[]" "[]" "(empty_store, [])"]
  show ?thesis by simp
qed

text \<open>
  C10 as stated fails for a node without data: it is skipped before its axes are
  read, and the reader function returns the empty list.
\<close>

theorem untyped_axis_aborts_counterexample:
  "map d_type (the (md_axes (n_metadata skipped_untyped_node))) = [None, None] \<and>
   transform example_units [skipped_untyped_node] (empty_store, []) =
     ((empty_store, [skipping]), [n_metadata skipped_untyped_node], Inr [])"
  by (simp add: skipped_untyped_node_def plain_metadata_def untyped_axes_def transform_node_def skipping_def)

theorem untyped_axis_aborts_witness:
  "transform example_units [untyped_node] (empty_store, []) =
     ((empty_store, error_reading_axes), [n_metadata untyped_node], Inl KeyError) \<and>
   get_axis example_units (hd untyped_axes) = Inr (Some (SpaceAxis ''y'' ''none''))"
proof -
  have h: "has_data untyped_node"
    by (simp add: has_data_def untyped_node_def)
  have a: "md_axes (n_metadata untyped_node) = Some untyped_axes"
    by (simp add: untyped_node_def plain_metadata_def)
  have d: "hd untyped_axes \<in> set untyped_axes" "d_type (hd untyped_axes) = None"
    "d_name (hd untyped_axes) = Some ''y''" "d_unit (hd untyped_axes) = None"
    by (simp_all add: untyped_axes_def)
  have t: "transform example_units [] (empty_store, []) = ((empty_store, []), [], Inr [])"
    by simp
  from untyped_axis_aborts[OF h a d(1,2) t, of "[]"] d(3,4)
  show ?thesis by (simp add: example_units_def)
qed

text \<open>The equations that evaluate the loop body on a concrete node.\<close>

lemmas node_simps = transform_node_def finish_node_def detect_channel_axis_def index_of_def
  transform_scale_def transf_step_def pop_channel_def pop_def wrap_name_def image_branch_def
  label_branch_def copy_key_def copy_first_key_def METADATA_KEYS_def empty_metadata_def
  get_axes_def get_axis_def attach_multi_def attach_single_def n_channels_of_def alloc_def
  setitem_def deepcopy_def make_extras_def first_item_def squeeze_def transform_properties_def

theorem reader_one_tuple_per_data_node_witness:
  "\<exists>s' mds results.
     transform example_units [skipped_untyped_node, two_channel_node, skipped_untyped_node] (empty_store, []) =
       (s', mds, Inr results) \<and>
     length results = 1 \<and> list_all2 (yields example_units) [two_channel_node] results"
proof -
  let ?nodes = "[skipped_untyped_node, two_channel_node, skipped_untyped_node]"
  obtain s' mds r where t: "transform example_units ?nodes (empty_store, []) = (s', mds, r)"
    by (cases "transform example_units ?nodes (empty_store, [])") auto
  have "(case snd (snd (transform example_units ?nodes (empty_store, []))) of Inl e \<Rightarrow> False | Inr rs \<Rightarrow> True)"
    by (simp add: node_simps two_channel_node_def cyx_axes_def example_units_def empty_store_def
        skipped_untyped_node_def plain_metadata_def numeral_2_eq_2)
  with t obtain results where r: "r = Inr results" by (cases r) auto
  have f: "filter has_data ?nodes = [two_channel_node]"
    by (simp add: has_data_def two_channel_node_def skipped_untyped_node_def)
  from reader_one_tuple_per_data_node[OF t[unfolded r]] f
  have "length results = 1 \<and> list_all2 (yields example_units) [two_channel_node] results"
    by simp
  with t r show ?thesis by blast
qed

subsection \<open>Per-channel metadata, the node metadata and the display fields\<close>

text \<open>
  C1. On a two-channel image with the names \<^verbatim>\<open>["a", "b"]\<close> and no \<^verbatim>\<open>metadata\<close>
  field, both per-channel mappings are one object, written once per name: after the
  normalization the extra metadata of channel 0 and of channel 1 both carry the name
  \<^verbatim>\<open>"b"\<close>, so channel 0 does not carry its own name.
\<close>

theorem channels_share_last_name:
  "(case transform_node example_units (empty_store, []) two_channel_node of
      ((st, lg), md, Inr (Some (data1, metadata, layer_type))) \<Rightarrow>
        m_channel_axis metadata = Some 0 \<and>
        m_fields metadata ''name'' = Some (PList [PStr ''a'', PStr ''b'']) \<and>
        channel_name example_units st metadata 0 = Some (PStr ''b'') \<and>
        channel_name example_units st metadata 1 = Some (PStr ''b'')
    | _ \<Rightarrow> False)"
  by (simp add: node_simps two_channel_node_def cyx_axes_def example_units_def empty_store_def
      numeral_2_eq_2 channel_name_def channel_ref_def mapping_of_def)

text \<open>
  C2. On a three-channel image whose \<^verbatim>\<open>metadata\<close> field is a single mapping, the
  list that replaces it holds one copy three times: the three entries are the same
  reference, and writing a key through channel 0 changes the mapping of channel 1 and
  is read back through channel 2.
\<close>

theorem broadcast_metadata_is_shared:
  "(case transform_node example_units (one_mapping_store, []) three_channel_node of
      ((st, lg), md, Inr (Some (data1, metadata, layer_type))) \<Rightarrow>
        map (channel_ref metadata) [0, 1, 2] = [PRef 1, PRef 1, PRef 1] \<and>
        (case setitem (channel_ref metadata 0) ''note'' (Json JNull) st of
           Inr st' \<Rightarrow>
             mapping_of st' (channel_ref metadata 1) \<noteq> mapping_of st (channel_ref metadata 1) \<and>
             map_of (mapping_of st' (channel_ref metadata 2)) ''note'' = Some (Json JNull)
         | Inl e \<Rightarrow> False)
    | _ \<Rightarrow> False)"
  by (simp add: node_simps three_channel_node_def cyx_axes_def example_units_def one_mapping_store_def
      numeral_3_eq_3 channel_ref_def mapping_of_def)





























subsection \<open>The pivot without a collision\<close>

lemma update_empty_lists:
  "AList.update key [] (map (\<lambda>k. (k, [])) keys) = map (\<lambda>k. (k, [])) (add_key key keys)"
proof (induction keys)
  case Nil
  show ?case by (simp add: add_key_def)
next
  case (Cons k keys)
  then show ?case by (auto simp: add_key_def split: if_splits)
qed

lemma fold_update_empty_lists:
  "fold (\<lambda>key properties. AList.update key [] properties) ks (map (\<lambda>k. (k, [])) keys) =
     map (\<lambda>k. (k, [])) (fold add_key ks keys)"
  by (induction ks arbitrary: keys) (simp_all add: update_empty_lists)

lemma create_lists_names_from:
  "fold (\<lambda>(label_id, props_dict) properties.
             fold (\<lambda>key properties. AList.update key [] properties) (map fst props_dict) properties)
          props (map (\<lambda>k. (k, [])) keys) =
   map (\<lambda>k. (k, [])) (fold add_key (concat (map (\<lambda>(label_id, props_dict). map fst props_dict) props)) keys)"
proof (induction props arbitrary: keys)
  case Nil
  show ?case by simp
next
  case (Cons p props)
  obtain l d where p: "p = (l, d)" by (cases p)
  show ?case by (simp add: p fold_update_empty_lists Cons.IH)
qed

lemma create_lists_names:
  "create_lists props = map (\<lambda>k. (k, [])) (property_names props)"
  using create_lists_names_from[of props "[]"] by (simp add: create_lists_def property_names_def)

lemma distinct_add_key: "distinct keys \<Longrightarrow> distinct (add_key key keys)"
  by (simp add: add_key_def)

lemma distinct_fold_add_key: "distinct keys \<Longrightarrow> distinct (fold add_key ks keys)"
  by (induction ks arbitrary: keys) (simp_all add: distinct_add_key)

lemma distinct_property_names: "distinct (property_names props)"
  by (simp add: property_names_def distinct_fold_add_key)

lemma map_entry_distinct:
  "distinct (map fst al) \<Longrightarrow>
     AList.map_entry k f al = map (\<lambda>(k', v). (k', if k' = k then f v else v)) al"
proof (induction al)
  case Nil
  show ?case by simp
next
  case (Cons p al)
  obtain k' v where p: "p = (k', v)" by (cases p)
  have "k' = k \<Longrightarrow> map (\<lambda>(k', v). (k', if k' = k then f v else v)) al = al"
    using Cons.prems p by (induction al) auto
  then show ?case using Cons p by auto
qed

lemma fold_map_entry_distinct:
  assumes "distinct (map fst al)" and "distinct ks"
  shows "fold (\<lambda>k. AList.map_entry k (h k)) ks al =
           map (\<lambda>(k, v). (k, if k \<in> set ks then h k v else v)) al"
  using assms
proof (induction ks arbitrary: al)
  case Nil
  show ?case by simp
next
  case (Cons k ks)
  let ?al = "map (\<lambda>(k', v). (k', if k' = k then h k v else v)) al"
  have d: "distinct (map fst ?al)"
    using Cons.prems(1) by (simp add: case_prod_unfold comp_def)
  have "fold (\<lambda>k. AList.map_entry k (h k)) (k # ks) al = fold (\<lambda>k. AList.map_entry k (h k)) ks ?al"
    by (simp add: map_entry_distinct[OF Cons.prems(1)])
  also have "\<dots> = map (\<lambda>(k, v). (k, if k \<in> set ks then h k v else v)) ?al"
    using Cons.IH[OF d] Cons.prems(2) by simp
  also have "\<dots> = map (\<lambda>(k', v). (k', if k' \<in> set (k # ks) then h k' v else v)) al"
    using Cons.prems(2) by (auto simp: case_prod_unfold)
  finally show ?case .
qed

lemma append_label_columns:
  assumes "distinct keys" and "''index'' \<notin> set keys"
  shows "append_label keys (l, d) (map (\<lambda>k. (k, c k)) (keys @ [''index''])) =
           map (\<lambda>k. (k, c k @ column [(l, d)] k)) (keys @ [''index''])"
proof -
  let ?S = "map (\<lambda>k. (k, c k)) (keys @ [''index''])"
  have dS: "distinct (map fst ?S)" using assms by (simp add: comp_def)
  let ?S1 = "map (\<lambda>(k', v). (k', if k' = ''index'' then v @ [LabelId l] else v)) ?S"
  have d1: "distinct (map fst ?S1)" using assms by (simp add: comp_def case_prod_unfold)
  have "append_label keys (l, d) ?S =
          fold (\<lambda>k. AList.map_entry k (\<lambda>xs. xs @ [dict_get_none d k])) keys ?S1"
    unfolding append_label_def dict_append_def
    by (simp only: prod.case map_entry_distinct[OF dS])
  also have "\<dots> = map (\<lambda>(k, v). (k, if k \<in> set keys then v @ [dict_get_none d k] else v)) ?S1"
    by (rule fold_map_entry_distinct[OF d1 assms(1)])
  also have "\<dots> = map (\<lambda>k. (k, c k @ column [(l, d)] k)) (keys @ [''index''])"
    using assms(2) by (auto simp: column_def)
  finally show ?thesis .
qed

lemma fold_append_label_columns:
  assumes "distinct keys" and "''index'' \<notin> set keys"
  shows "fold (append_label keys) props (map (\<lambda>k. (k, c k)) (keys @ [''index''])) =
           map (\<lambda>k. (k, c k @ column props k)) (keys @ [''index''])"
proof (induction props arbitrary: c)
  case Nil
  show ?case by (simp add: column_def)
next
  case (Cons p props)
  obtain l d where p: "p = (l, d)" by (cases p)
  have col: "column (p # props) k = column [(l, d)] k @ column props k" for k
    by (simp add: column_def p)
  have "fold (append_label keys) (p # props) (map (\<lambda>k. (k, c k)) (keys @ [''index''])) =
          fold (append_label keys) props (append_label keys (l, d) (map (\<lambda>k. (k, c k)) (keys @ [''index''])))"
    by (simp only: p fold_Cons comp_apply)
  also have "\<dots> = fold (append_label keys) props (map (\<lambda>k. (k, c k @ column [(l, d)] k)) (keys @ [''index'']))"
    by (simp only: append_label_columns[OF assms])
  also have "\<dots> = map (\<lambda>k. (k, (c k @ column [(l, d)] k) @ column props k)) (keys @ [''index''])"
    by (rule Cons.IH)
  also have "\<dots> = map (\<lambda>k. (k, c k @ column (p # props) k)) (keys @ [''index''])"
    by (simp add: col)
  finally show ?case .
qed

lemma set_fold_add_key: "set (fold add_key ks keys) = set keys \<union> set ks"
  by (induction ks arbitrary: keys) (auto simp: add_key_def)

text \<open>
  Without a property named \<^verbatim>\<open>index\<close> the pivot is as described: one list per property
  name, in the order of first appearance, then the list of the label identifiers.
\<close>

lemma transform_properties_pivot:
  assumes "''index'' \<notin> set (property_names props)"
  shows "transform_properties (Some props) = Some (pivot props)"
proof -
  let ?keys = "property_names props"
  have u: "AList.update ''index'' [] (map (\<lambda>k. (k, [])) ?keys) =
             map (\<lambda>k. (k, [])) (?keys @ [''index''])"
    using assms by (simp add: update_empty_lists add_key_def)
  have k: "map fst (create_lists props) = ?keys"
    by (simp add: create_lists_names comp_def)
  have "transform_properties (Some props) =
          Some (fold (append_label (map fst (create_lists props))) props
                  (AList.update ''index'' [] (create_lists props)))"
    by (simp add: transform_properties_def Let_def)
  also have "\<dots> = Some (fold (append_label ?keys) props (map (\<lambda>k. (k, [])) (?keys @ [''index''])))"
    by (simp only: k) (simp only: create_lists_names u)
  also have "\<dots> = Some (map (\<lambda>k. (k, [] @ column props k)) (?keys @ [''index'']))"
    by (simp only: fold_append_label_columns[OF distinct_property_names assms])
  finally show ?thesis by (simp add: pivot_def)
qed

lemma set_property_names:
  "set (property_names props) = (\<Union>(label_id, props_dict) \<in> set props. fst ` set props_dict)"
  by (auto simp: property_names_def set_fold_add_key)

subsection \<open>Broadcast and per-channel lists\<close>

text \<open>
  Whenever the \<^verbatim>\<open>metadata\<close> field is not a list, the list that replaces it repeats
  one value; a list of distinct mappings, one per name, gets each name in its own
  mapping.
\<close>

lemma attach_multi_broadcast:
  assumes "\<forall>ms. m_fields metadata ''metadata'' \<noteq> Some (PList ms)"
    and "attach_multi env c data1 metadata axes st = (st', Inr metadata')"
  shows "\<exists>n v. n_channels_of data1 c = Inr n \<and>
           m_fields metadata' ''metadata'' = Some (PList (replicate n v))"
proof (cases "n_channels_of data1 c")
  case (Inl e)
  with assms(2) show ?thesis by (simp add: attach_multi_def)
next
  case (Inr n)
  show ?thesis
  proof (cases "m_fields metadata ''metadata''")
    case None
    with assms(2) Inr show ?thesis
      by (auto simp: attach_multi_def alloc_def Let_def split: prod.splits option.splits)
  next
    case (Some meta)
    with assms(1) have "\<forall>ms. meta \<noteq> PList ms" by simp
    with assms(2) Inr Some show ?thesis
      by (cases meta; cases "deepcopy meta st")
        (auto simp: attach_multi_def Let_def split: prod.splits option.splits)
  qed
qed

lemma attach_loop_distinct:
  assumes "distinct as" and "length ns = length as"
  shows "\<exists>st'. attach_loop env metadata axes (zip ns (map PRef as)) st = (st', None) \<and>
           (\<forall>i<length as. map_of (objs st' (as ! i)) (EXTRA_METADATA_KEY env) =
                             Some (Extra (make_extras metadata axes (ns ! i)))) \<and>
           (\<forall>a. a \<notin> set as \<longrightarrow> objs st' a = objs st a)"
  using assms
proof (induction as arbitrary: ns st)
  case Nil
  then show ?case by simp
next
  case (Cons a as)
  then obtain n ns' where ns: "ns = n # ns'" and len: "length ns' = length as"
    by (cases ns) auto
  let ?st1 = "st\<lparr>objs := (objs st)(a := AList.update (EXTRA_METADATA_KEY env)
                  (Extra (make_extras metadata axes n)) (objs st a))\<rparr>"
  from Cons.prems have d: "distinct as" and na: "a \<notin> set as" by simp_all
  from Cons.IH[OF d len, of ?st1] obtain st' where
    l: "attach_loop env metadata axes (zip ns' (map PRef as)) ?st1 = (st', None)" and
    e: "\<forall>i<length as. map_of (objs st' (as ! i)) (EXTRA_METADATA_KEY env) =
                             Some (Extra (make_extras metadata axes (ns' ! i)))" and
    o: "\<forall>b. b \<notin> set as \<longrightarrow> objs st' b = objs ?st1 b"
    by blast
  have r: "attach_loop env metadata axes (zip ns (map PRef (a # as))) st = (st', None)"
    using l by (simp add: ns setitem_def)
  have h: "map_of (objs st' a) (EXTRA_METADATA_KEY env) = Some (Extra (make_extras metadata axes n))"
    using o na by (simp add: update_conv')
  have "map_of (objs st' ((a # as) ! i)) (EXTRA_METADATA_KEY env) =
          Some (Extra (make_extras metadata axes (ns ! i)))" if "i < length (a # as)" for i
    using that h e ns by (cases i) auto
  moreover have "\<forall>b. b \<notin> set (a # as) \<longrightarrow> objs st' b = objs st b"
    using o by auto
  ultimately show ?case using r by blast
qed

end
